theory Spec2Isabelle
  imports Complex_Main
begin

section \<open>in-vue: a viewport-gated async component with a retry handler\<close>

text \<open>
  The library exports one function, \<open>defineInVueComponent(loader, options)\<close>, which wraps
  Vue's \<open>defineAsyncComponent\<close>. Two variants of it are in the repository:
  \<^item> \<open>src/lib/main.ts\<close>, called \<open>MainTs\<close> below;
  \<^item> \<open>src/unnamed/part_000\<close>, called \<open>Part000\<close> below.

  Both hand an \<open>onError(error, retry, fail, attempts)\<close> hook to Vue, and both contain a
  placeholder component whose \<open>onMounted\<close> hook observes its root element with an
  \<open>IntersectionObserver\<close> and calls the user's loader when the element intersects.

  JavaScript numbers are idealised: \<open>maxRetries\<close> and \<open>attempts\<close> are integers,
  \<open>retryDelay\<close>, \<open>timeout\<close> and the delay handed to \<open>setTimeout\<close> are real numbers.
  Rounding, overflow and NaN of IEEE doubles are outside this model.
  \<open>Math.random()\<close> is the argument \<open>u\<close> of the handler.
\<close>

subsection \<open>Options\<close>

text \<open>
  The options object as the caller passes it: a field is \<open>None\<close> when the property is
  absent (\<open>undefined\<close>), which is when a destructuring default applies.
\<close>

record raw_options =
  opt_maxRetries :: "int option"
  opt_timeout :: "real option"
  opt_retryDelay :: "real option"

record options =
  maxRetries :: int
  timeout :: real
  retryDelay :: real

text \<open>\<open>const { maxRetries = 3, timeout = 30000, retryDelay = 1000, ... } = options\<close>\<close>

definition destructure :: "raw_options \<Rightarrow> options" where
  "destructure ro =
     \<lparr> maxRetries = (case opt_maxRetries ro of None \<Rightarrow> 3 | Some n \<Rightarrow> n),
       timeout = (case opt_timeout ro of None \<Rightarrow> 30000 | Some t \<Rightarrow> t),
       retryDelay = (case opt_retryDelay ro of None \<Rightarrow> 1000 | Some d \<Rightarrow> d) \<rparr>"

definition no_options :: raw_options where
  "no_options = \<lparr> opt_maxRetries = None, opt_timeout = None, opt_retryDelay = None \<rparr>"

subsection \<open>The \<open>onError\<close> hook\<close>

text \<open>
  The hook is the same text in \<open>main.ts\<close> (lines 90-108) and in both branches of
  \<open>part_000\<close> (lines 50-63 and 117-130):
  \<^verbatim>\<open>
  onError(error, retry, fail, attempts) {
    console.warn(`Async component load attempt ${attempts} failed:`, error)
    if (attempts > maxRetries) {
      console.error('Max retries exceeded. Component load failed.')
      fail()
      return
    }
    const baseDelay = retryDelay * Math.pow(2, attempts - 1)
    const jitteredDelay = baseDelay * (1 + Math.random() * 0.5)
    setTimeout(retry, jitteredDelay)
  }
  \<close>
  It returns what it wrote to the console and which of the two callbacks it used:
  \<open>Fail\<close> for the call \<open>fail()\<close>, \<open>Retry d\<close> for \<open>setTimeout(retry, d)\<close>.
\<close>

datatype 'e console = Warn int 'e | MaxRetriesExceeded

datatype action = Fail | Retry real

definition baseDelay :: "options \<Rightarrow> int \<Rightarrow> real" where
  "baseDelay opts attempts = retryDelay opts * 2 powi (attempts - 1)"

definition jitteredDelay :: "options \<Rightarrow> real \<Rightarrow> int \<Rightarrow> real" where
  "jitteredDelay opts u attempts = baseDelay opts attempts * (1 + u * 0.5)"

definition onError :: "options \<Rightarrow> real \<Rightarrow> 'e \<Rightarrow> int \<Rightarrow> 'e console list \<times> action" where
  "onError opts u error attempts =
     (if attempts > maxRetries opts
      then ([Warn attempts error, MaxRetriesExceeded], Fail)
      else ([Warn attempts error], Retry (jitteredDelay opts u attempts)))"

subsection \<open>Promises, effects and the state of one component instance\<close>

text \<open>
  A promise is pending, fulfilled with a value or rejected with an error. The user's
  loader (\<open>loader\<close>, the producer) is a function from the number of earlier invocations to
  the settlement of the promise that this invocation returns (\<open>Pending\<close>: it never
  settles). An \<open>await\<close> is collapsed into the call: what follows the \<open>await\<close> runs in the
  same step, with the settlement of the awaited promise.
\<close>

datatype ('v, 'e) settlement = Pending | Fulfilled 'v | Rejected 'e

type_synonym ('v, 'e) producer = "nat \<Rightarrow> ('v, 'e) settlement"

text \<open>What can be thrown: the user's error, or an error of the JavaScript engine.\<close>

datatype 'e thrown = User 'e | TypeError | ReferenceError

text \<open>The observable effects, recorded in the order in which they happen.\<close>

datatype ('v, 'e) effect =
    Invoke                        \<comment> \<open>\<open>loader()\<close>: one invocation of the user's loader\<close>
  | Resolve 'v                    \<comment> \<open>\<open>resolveComponent(component)\<close>\<close>
  | Uncaught "'e thrown"          \<comment> \<open>a rejection or exception that leaves an async callback\<close>
  | Logged "'e thrown"            \<comment> \<open>\<open>console.error('Component loading failed', error)\<close>\<close>
  | Construct                     \<comment> \<open>\<open>new IntersectionObserver(callback, observerOptions)\<close>\<close>
  | Observe                       \<comment> \<open>\<open>observer.observe(elRef.value)\<close>\<close>
  | Unobserve                     \<comment> \<open>\<open>observer.unobserve(elRef.value)\<close>\<close>
  | Console "'e console"          \<comment> \<open>a console line of \<open>onError\<close>\<close>
  | FailCall                      \<comment> \<open>\<open>fail()\<close>\<close>
  | Timer real                    \<comment> \<open>\<open>setTimeout(retry, jitteredDelay)\<close>\<close>

record ('v, 'e) state =
  calls :: nat                          \<comment> \<open>invocations of the user's loader so far\<close>
  resolveComponent :: bool              \<comment> \<open>the variable \<open>resolveComponent\<close> has been assigned\<close>
  mounted :: bool                       \<comment> \<open>the placeholder's \<open>onMounted\<close> hook has run\<close>
  observing :: bool                     \<comment> \<open>the observer has \<open>elRef.value\<close> among its targets\<close>
  status :: "('v, 'e) settlement"       \<comment> \<open>the promise of the \<open>loader\<close> option, as Vue sees it\<close>
  trace :: "('v, 'e) effect list"

definition init :: "('v, 'e) state" where
  "init = \<lparr> calls = 0, resolveComponent = False, mounted = False, observing = False,
            status = Pending, trace = [] \<rparr>"

definition emit :: "('v, 'e) effect list \<Rightarrow> ('v, 'e) state \<Rightarrow> ('v, 'e) state" where
  "emit es st = st\<lparr> trace := trace st @ es \<rparr>"

subsection \<open>The two functions that can be the \<open>loader\<close> option\<close>

text \<open>
  A \<open>loader\<close> option is called by Vue and returns a promise. The user's loader itself
  (\<open>part_000\<close> line 48, \<open>loader,\<close>) returns the promise of the producer.
\<close>

definition user_loader ::
  "('v, 'e) producer \<Rightarrow> ('v, 'e) state \<Rightarrow> ('v, 'e) settlement \<times> ('v, 'e) state" where
  "user_loader producer st =
     (producer (calls st), emit [Invoke] (st\<lparr> calls := calls st + 1 \<rparr>))"

text \<open>
  The wrapper (\<open>main.ts\<close> lines 34-41, \<open>part_000\<close> lines 70-115):
  \<^verbatim>\<open>
  loader: () => {
    return new Promise((resolve) => {
      resolveComponent = resolve as ComponentResolver
    })
  }
  \<close>
  The executor takes \<open>resolve\<close> only, stores it and returns: the promise is pending, and
  the stored function is the only means to settle it. (In \<open>part_000\<close> the executor also
  builds the placeholder component and returns a vnode of it; a \<open>Promise\<close> executor's
  return value is discarded.)
\<close>

definition loader_wrapper :: "('v, 'e) state \<Rightarrow> ('v, 'e) settlement \<times> ('v, 'e) state" where
  "loader_wrapper st = (Pending, st\<lparr> resolveComponent := True, status := Pending \<rparr>)"

text \<open>
  Calling the stored \<open>resolve\<close>: a promise settles once, a later call changes nothing.
\<close>

definition resolve :: "'v \<Rightarrow> ('v, 'e) state \<Rightarrow> ('v, 'e) state" where
  "resolve component st =
     emit [Resolve component]
       (st\<lparr> status := (case status st of Pending \<Rightarrow> Fulfilled component | s \<Rightarrow> s) \<rparr>)"

subsection \<open>Vue's side of the \<open>loader\<close> and \<open>onError\<close> options\<close>

text \<open>
  \<open>defineAsyncComponent\<close> belongs to Vue, not to this repository. Its contract for the two
  options is modelled as Vue documents and implements it:
  \<^verbatim>\<open>
  const retry = () => { retries++; pendingRequest = null; return load() }
  const load = () => pendingRequest || (pendingRequest =
    loader().catch(err => {
      if (userOnError) return new Promise((resolve, reject) => {
        userOnError(err, () => resolve(retry()), () => reject(err), retries + 1) })
      else throw err })
    .then(comp => { resolvedComp = comp; return comp }))
  \<close>
  \<open>load\<close> calls the \<open>loader\<close> option; if its promise rejects, the hook is called with
  \<open>attempts = retries + 1\<close>; \<open>retry\<close> adds one to \<open>retries\<close> and loads again; \<open>fail\<close>
  rejects. A timer set by the hook is taken to fire. \<open>rnd k\<close> is the draw of
  \<open>Math.random()\<close> in the hook's call number \<open>k\<close> (from 0).
\<close>

function vue_load ::
  "options \<Rightarrow> (('v, 'e) state \<Rightarrow> ('v, 'e) settlement \<times> ('v, 'e) state) \<Rightarrow> (nat \<Rightarrow> real)
     \<Rightarrow> nat \<Rightarrow> ('v, 'e) state \<Rightarrow> ('v, 'e) state" where
  "vue_load opts ldr rnd retries st =
     (case ldr st of
        (Pending, st1) \<Rightarrow> st1
      | (Fulfilled c, st1) \<Rightarrow> st1\<lparr> status := Fulfilled c \<rparr>
      | (Rejected err, st1) \<Rightarrow>
          (case onError opts (rnd retries) err (int retries + 1) of
             (logs, Fail) \<Rightarrow>
               (emit (map Console logs @ [FailCall]) st1)\<lparr> status := Rejected err \<rparr>
           | (logs, Retry d) \<Rightarrow>
               vue_load opts ldr rnd (retries + 1) (emit (map Console logs @ [Timer d]) st1)))"
  by pat_completeness auto
termination
  by (relation "measure (\<lambda>(opts, ldr, rnd, retries, st). nat (maxRetries opts + 1 - int retries))")
     (auto simp: onError_def split: if_splits)

declare vue_load.simps [simp del]

subsection \<open>The placeholder component\<close>

datatype src = MainTs | Part000

text \<open>
  \<open>main.ts\<close> lines 49-55:
  \<^verbatim>\<open>
  async function loadComponent() {
    const component = await loader()
    resolveComponent(component)
  }
  \<close>
  \<open>part_000\<close> lines 79-86:
  \<^verbatim>\<open>
  async function loadComponent() {
    try {
      const component = await loader()
      resolveComponent(component)
    } catch (error) {
      console.error('Component loading failed', error)
    }
  }
  \<close>
  In \<open>main.ts\<close> a rejection of \<open>loader()\<close> rejects the promise of \<open>loadComponent\<close>, which
  no caller handles; in \<open>part_000\<close> it is caught and logged. Calling
  \<open>resolveComponent\<close> before it is assigned is a \<open>TypeError\<close>.
\<close>

definition throw :: "src \<Rightarrow> 'e thrown \<Rightarrow> ('v, 'e) state \<Rightarrow> ('v, 'e) state" where
  "throw s x st = (case s of MainTs \<Rightarrow> emit [Uncaught x] st | Part000 \<Rightarrow> emit [Logged x] st)"

definition loadComponent ::
  "src \<Rightarrow> ('v, 'e) producer \<Rightarrow> ('v, 'e) state \<Rightarrow> ('v, 'e) state" where
  "loadComponent s producer st =
     (case user_loader producer st of
        (Pending, st1) \<Rightarrow> st1
      | (Fulfilled component, st1) \<Rightarrow>
          (if resolveComponent st1 then resolve component st1 else throw s TypeError st1)
      | (Rejected err, st1) \<Rightarrow> throw s (User err) st1)"

text \<open>
  The observer's callback, \<open>main.ts\<close> lines 65-74 and \<open>part_000\<close> lines 89-96:
  \<^verbatim>\<open>
  async (entries) => {
    if (!entries[0].isIntersecting) {
      return
    }
    observer.unobserve(elRef.value)
    await loadComponent()
  }
  \<close>
  An entry is its \<open>isIntersecting\<close> flag. Only \<open>entries[0]\<close> is read; on an empty
  array (which a browser does not deliver) reading its property is a \<open>TypeError\<close>.
\<close>

definition observer_callback ::
  "src \<Rightarrow> ('v, 'e) producer \<Rightarrow> bool list \<Rightarrow> ('v, 'e) state \<Rightarrow> ('v, 'e) state" where
  "observer_callback s producer entries st =
     (case entries of
        [] \<Rightarrow> emit [Uncaught TypeError] st
      | isIntersecting # _ \<Rightarrow>
          if \<not> isIntersecting then st
          else loadComponent s producer (emit [Unobserve] (st\<lparr> observing := False \<rparr>)))"

text \<open>
  The mounted hook. \<open>main.ts\<close> lines 57-80:
  \<^verbatim>\<open>
  onMounted(async () => {
    if (!('IntersectionObserver' in window)) {
      await loadComponent()
      return
    }
    const observer = new IntersectionObserver(async (entries) => { ... }, observerOptions)
    observer.observe(elRef.value)
  })
  \<close>
  \<open>part_000\<close> lines 88-100 is the same without the first \<open>if\<close>; there
  \<open>new IntersectionObserver\<close> is a \<open>ReferenceError\<close> when the browser has none.
  \<open>hasIO\<close> is \<open>'IntersectionObserver' in window\<close>.
\<close>

definition onMounted ::
  "src \<Rightarrow> bool \<Rightarrow> ('v, 'e) producer \<Rightarrow> ('v, 'e) state \<Rightarrow> ('v, 'e) state" where
  "onMounted s hasIO producer st =
     (if \<not> hasIO
      then (case s of MainTs \<Rightarrow> loadComponent s producer st
                    | Part000 \<Rightarrow> emit [Uncaught ReferenceError] st)
      else emit [Construct, Observe] (st\<lparr> observing := True \<rparr>))"

subsection \<open>What the browser and Vue do to one placeholder\<close>

text \<open>
  \<^item> \<open>Mounted\<close>: Vue has mounted the placeholder and runs its mounted hook (once for an
    instance).
  \<^item> \<open>Intersection entries\<close>: the browser has a notification for the observer of this
    placeholder; an \<open>IntersectionObserver\<close> calls back only for a target it observes.
  \<^item> \<open>Unmounted\<close>: Vue has unmounted the placeholder. \<open>setup\<close> registers no hook for
    it in either file, so no code of the repository runs.
\<close>

datatype event = Mounted | Intersection "bool list" | Unmounted

fun deliver ::
  "src \<Rightarrow> bool \<Rightarrow> ('v, 'e) producer \<Rightarrow> ('v, 'e) state \<Rightarrow> event \<Rightarrow> ('v, 'e) state" where
  "deliver s hasIO producer st Mounted =
     (if mounted st then st else onMounted s hasIO producer (st\<lparr> mounted := True \<rparr>))"
| "deliver s hasIO producer st (Intersection entries) =
     (if observing st then observer_callback s producer entries st else st)"
| "deliver s hasIO producer st Unmounted = st"

text \<open>An event is a firing one when its first entry is intersecting.\<close>

fun fires :: "event \<Rightarrow> bool" where
  "fires (Intersection (isIntersecting # _)) = isIntersecting"
| "fires _ = False"

subsection \<open>The host environment and \<open>defineInVueComponent\<close>\<close>

text \<open>
  \<open>part_000\<close> lines 19-22:
  \<^verbatim>\<open>
  function isCompatibleVueVersion() {
    const [major, minor] = version.split('.').map(Number)
    return major === 3 && minor >= 2
  }
  \<close>
  \<open>version\<close> is Vue's version string. JavaScript's \<open>Number\<close> on strings is a parameter of
  the environment (\<open>toNumber\<close>); its results are the finite numbers, the two infinities
  and NaN. A missing \<open>minor\<close> is \<open>undefined\<close>, and \<open>undefined >= 2\<close> is false.
\<close>

datatype jsnum = Num real | PosInfinity | NegInfinity | NaN

fun split_dot :: "string \<Rightarrow> string list" where
  "split_dot [] = [[]]"
| "split_dot (c # cs) =
     (if c = CHR ''.'' then [] # split_dot cs
      else (case split_dot cs of [] \<Rightarrow> [[c]] | w # ws \<Rightarrow> (c # w) # ws))"

fun at_least_2 :: "jsnum \<Rightarrow> bool" where
  "at_least_2 (Num x) = (2 \<le> x)"
| "at_least_2 PosInfinity = True"
| "at_least_2 NegInfinity = False"
| "at_least_2 NaN = False"

record env =
  hasIO :: bool                        \<comment> \<open>\<open>'IntersectionObserver' in window\<close>\<close>
  version :: string                    \<comment> \<open>\<open>version\<close>, imported from \<open>vue\<close>\<close>
  toNumber :: "string \<Rightarrow> jsnum"         \<comment> \<open>\<open>Number\<close>\<close>

definition isCompatibleVueVersion :: "env \<Rightarrow> bool" where
  "isCompatibleVueVersion e =
     (case map (toNumber e) (split_dot (version e)) of
        major # minor # _ \<Rightarrow> major = Num 3 \<and> at_least_2 minor
      | _ \<Rightarrow> False)"

text \<open>
  What \<open>defineInVueComponent\<close> returns is one of two calls of \<open>defineAsyncComponent\<close>:
  \<^item> \<open>StandardAsync\<close> (\<open>part_000\<close> lines 45-64): the \<open>loader\<close> option is the user's
    loader, and there is no placeholder of the library;
  \<^item> \<open>ViewportAsync\<close> (\<open>main.ts\<close> lines 26-109, \<open>part_000\<close> lines 68-131): the
    \<open>loader\<close> option is the wrapper.

  \<open>main.ts\<close> lines 15-26 destructure the options and return; \<open>part_000\<close> lines 24-68:
  \<^verbatim>\<open>
  if (!isCompatibleVueVersion()) {
    throw new Error('Incompatible Vue Version: Minimum compatible vue version is 3.2.0')
  }
  const { maxRetries = 3, timeout = 30000, retryDelay = 1000, ... } = options
  if (!('IntersectionObserver' in window)) {
    return defineAsyncComponent({ ...restOptions, loader, timeout, onError(...) {...} })
  }
  return defineAsyncComponent({ ...restOptions, loader: () => {...}, timeout, onError(...) {...} })
  \<close>
\<close>

datatype config_error = IncompatibleVueVersion

datatype handle = StandardAsync options | ViewportAsync options

definition defineInVueComponent :: "src \<Rightarrow> env \<Rightarrow> raw_options \<Rightarrow> config_error + handle" where
  "defineInVueComponent s e ro =
     (case s of
        MainTs \<Rightarrow> Inr (ViewportAsync (destructure ro))
      | Part000 \<Rightarrow>
          if \<not> isCompatibleVueVersion e then Inl IncompatibleVueVersion
          else if \<not> hasIO e then Inr (StandardAsync (destructure ro))
          else Inr (ViewportAsync (destructure ro)))"

subsection \<open>The life of one instance\<close>

text \<open>
  When Vue creates an instance of the returned component it calls \<open>load\<close>, before
  anything is rendered. Then the events of the placeholder follow; a \<open>StandardAsync\<close>
  component has no placeholder of the library, so they run no code of it.
  (In \<open>part_000\<close> the placeholder is given to Vue only as the discarded return value of
  the executor; the event \<open>Mounted\<close> there stands for a mount that some other code
  causes.)
\<close>

definition instantiate ::
  "handle \<Rightarrow> ('v, 'e) producer \<Rightarrow> (nat \<Rightarrow> real) \<Rightarrow> ('v, 'e) state" where
  "instantiate h producer rnd =
     (case h of
        StandardAsync opts \<Rightarrow> vue_load opts (user_loader producer) rnd 0 init
      | ViewportAsync opts \<Rightarrow> vue_load opts loader_wrapper rnd 0 init)"

definition react ::
  "src \<Rightarrow> env \<Rightarrow> handle \<Rightarrow> ('v, 'e) producer \<Rightarrow> ('v, 'e) state \<Rightarrow> event \<Rightarrow> ('v, 'e) state" where
  "react s e h producer st ev =
     (case h of
        StandardAsync _ \<Rightarrow> st
      | ViewportAsync _ \<Rightarrow> deliver s (hasIO e) producer st ev)"

definition run ::
  "src \<Rightarrow> env \<Rightarrow> raw_options \<Rightarrow> ('v, 'e) producer \<Rightarrow> (nat \<Rightarrow> real) \<Rightarrow> event list
     \<Rightarrow> config_error + ('v, 'e) state" where
  "run s e ro producer rnd evs =
     (case defineInVueComponent s e ro of
        Inl err \<Rightarrow> Inl err
      | Inr h \<Rightarrow> Inr (foldl (react s e h producer) (instantiate h producer rnd) evs))"

text \<open>
  An environment for concrete runs: a browser with or without \<open>IntersectionObserver\<close>,
  a Vue version, and \<open>Number\<close> as it is on the strings of decimal digits and on the empty
  string (NaN stands in for every other string).
\<close>

definition decimal :: "string \<Rightarrow> jsnum" where
  "decimal s =
     (if list_all (\<lambda>c. (48::nat) \<le> of_char c \<and> of_char c \<le> (57::nat)) s
      then Num (real (foldl (\<lambda>n c. 10 * n + (of_char c - 48)) 0 s))
      else NaN)"

definition browser :: "bool \<Rightarrow> string \<Rightarrow> env" where
  "browser io v = \<lparr> hasIO = io, version = v, toNumber = decimal \<rparr>"

text \<open>
  Concrete inputs: a loader that rejects every time, one that rejects once and then
  fulfils, one that fulfils at once, a constant draw of \<open>Math.random()\<close>, and options
  objects with a negative retry count and with no retry.
\<close>

definition always_rejects :: "(nat, string) producer" where
  "always_rejects i = Rejected ''boom''"

definition rejects_once :: "(nat, string) producer" where
  "rejects_once i = (if i = 0 then Rejected ''boom'' else Fulfilled 7)"

definition fulfils :: "(nat, string) producer" where
  "fulfils i = Fulfilled 7"

definition half :: "nat \<Rightarrow> real" where
  "half k = 1 / 2"

definition negative_retries :: raw_options where
  "negative_retries = \<lparr> opt_maxRetries = Some (- 1), opt_timeout = None, opt_retryDelay = None \<rparr>"

definition no_retries :: raw_options where
  "no_retries = \<lparr> opt_maxRetries = Some 0, opt_timeout = None, opt_retryDelay = None \<rparr>"

text \<open>
  The state of a \<open>ViewportAsync\<close> instance right after its placeholder was mounted in
  a browser with \<open>IntersectionObserver\<close>.
\<close>

definition placeholder_mounted :: "('v, 'e) state" where
  "placeholder_mounted =
     \<lparr> calls = 0, resolveComponent = True, mounted = True, observing = True,
       status = Pending, trace = [Construct, Observe] \<rparr>"

text \<open>The effects that only \<open>onError\<close> and Vue's call of it produce.\<close>

fun retry_effect :: "('v, 'e) effect \<Rightarrow> bool" where
  "retry_effect (Console _) = True"
| "retry_effect FailCall = True"
| "retry_effect (Timer _) = True"
| "retry_effect _ = False"

section \<open>Properties\<close>

subsection \<open>The delay of a retry\<close>





subsection \<open>One placeholder and its observer\<close>

lemma vue_load_wrapper:
  "vue_load opts loader_wrapper rnd r st = st\<lparr> resolveComponent := True, status := Pending \<rparr>"
  by (subst vue_load.simps) (simp add: loader_wrapper_def)

lemma instantiate_viewport:
  "instantiate (ViewportAsync opts) p rnd = init\<lparr> resolveComponent := True \<rparr>"
  by (simp add: instantiate_def vue_load_wrapper init_def)

lemma react_viewport: "react s e (ViewportAsync opts) p = deliver s (hasIO e) p"
  by (intro ext) (simp add: react_def)

lemma react_standard: "foldl (react s e (StandardAsync opts) p) st evs = st"
  by (induction evs) (simp_all add: react_def)

lemma run_viewport:
  "defineInVueComponent s e ro = Inr (ViewportAsync opts) \<Longrightarrow>
   run s e ro p rnd evs = Inr (foldl (deliver s (hasIO e) p) (init\<lparr> resolveComponent := True \<rparr>) evs)"
  by (simp add: run_def instantiate_viewport react_viewport)

lemma loadComponent_fields:
  "observing (loadComponent s p st) = observing st"
  "mounted (loadComponent s p st) = mounted st"
  "resolveComponent (loadComponent s p st) = resolveComponent st"
  "calls (loadComponent s p st) = calls st + 1"
  by (auto simp: loadComponent_def user_loader_def emit_def resolve_def throw_def
      split: settlement.splits src.splits)

lemma loadComponent_trace:
  "\<exists>t. trace (loadComponent s p st) = trace st @ Invoke # t
       \<and> list_all (\<lambda>x. \<not> retry_effect x \<and> x \<noteq> Invoke \<and> x \<noteq> Unobserve \<and> x \<noteq> Construct \<and> x \<noteq> Observe) t"
  by (auto simp: loadComponent_def user_loader_def emit_def resolve_def throw_def
      split: settlement.splits src.splits)

lemma idle:
  "mounted st \<Longrightarrow> \<not> observing st \<Longrightarrow> foldl (deliver s io p) st evs = st"
proof (induction evs)
  case Nil
  then show ?case by simp
next
  case (Cons ev evs)
  then show ?case by (cases ev) simp_all
qed

lemma calls_fold:
  "mounted st \<Longrightarrow>
   calls (foldl (deliver s io p) st evs)
     = calls st + (if observing st \<and> list_ex fires evs then 1 else 0)"
proof (induction evs arbitrary: st)
  case Nil
  then show ?case by simp
next
  case (Cons ev evs)
  note IH = Cons.IH and m = Cons.prems
  show ?case
  proof (cases ev)
    case Mounted
    with IH [of st] m show ?thesis by simp
  next
    case Unmounted
    with IH [of st] m show ?thesis by simp
  next
    case (Intersection entries)
    show ?thesis
    proof (cases "observing st")
      case False
      with m Intersection show ?thesis by (simp add: idle)
    next
      case obs: True
      show ?thesis
      proof (cases entries)
        case Nil
        with IH [of "emit [Uncaught TypeError] st"] m Intersection obs
        show ?thesis by (simp add: observer_callback_def emit_def)
      next
        case entries: (Cons isIntersecting rest)
        show ?thesis
        proof (cases isIntersecting)
          case False
          with IH [of st] m Intersection obs entries show ?thesis
            by (simp add: observer_callback_def)
        next
          case True
          let ?st = "loadComponent s p (emit [Unobserve] (st\<lparr> observing := False \<rparr>))"
          have "foldl (deliver s io p) ?st evs = ?st"
            using m by (intro idle) (simp_all add: loadComponent_fields emit_def)
          with True Intersection obs entries show ?thesis
            by (simp add: observer_callback_def loadComponent_fields emit_def)
        qed
      qed
    qed
  qed
qed

lemma vue_load_user_step:
  "vue_load opts (user_loader p) rnd r st =
     (case p (calls st) of
        Pending \<Rightarrow> emit [Invoke] (st\<lparr> calls := calls st + 1 \<rparr>)
      | Fulfilled c \<Rightarrow> (emit [Invoke] (st\<lparr> calls := calls st + 1 \<rparr>))\<lparr> status := Fulfilled c \<rparr>
      | Rejected err \<Rightarrow>
          (if int r + 1 > maxRetries opts
           then (emit [Invoke, Console (Warn (int r + 1) err), Console MaxRetriesExceeded, FailCall]
                   (st\<lparr> calls := calls st + 1 \<rparr>))\<lparr> status := Rejected err \<rparr>
           else vue_load opts (user_loader p) rnd (r + 1)
                  (emit [Invoke, Console (Warn (int r + 1) err),
                         Timer (jitteredDelay opts (rnd r) (int r + 1))]
                     (st\<lparr> calls := calls st + 1 \<rparr>))))"
  by (subst vue_load.simps)
     (simp add: user_loader_def onError_def emit_def split: settlement.splits)

lemmas eval_defs =
  run_def defineInVueComponent_def isCompatibleVueVersion_def browser_def decimal_def
  destructure_def no_options_def negative_retries_def no_retries_def instantiate_def react_def
  vue_load_wrapper vue_load_user_step user_loader_def init_def emit_def onMounted_def
  observer_callback_def
  loadComponent_def resolve_def throw_def onError_def jitteredDelay_def baseDelay_def
  always_rejects_def rejects_once_def fulfils_def half_def

lemma placeholder_mounted_fields:
  "mounted placeholder_mounted" "observing placeholder_mounted"
  "calls placeholder_mounted = 0" "trace placeholder_mounted = [Construct, Observe]"
  "status placeholder_mounted = Pending"
  by (simp_all add: placeholder_mounted_def)

lemma mounted_state:
  "deliver s True p (init\<lparr> resolveComponent := True \<rparr>) Mounted = placeholder_mounted"
  by (simp add: onMounted_def emit_def init_def placeholder_mounted_def)

lemma run_mounted:
  assumes "hasIO e" and "defineInVueComponent s e ro = Inr (ViewportAsync opts)"
  shows "run s e ro p rnd (Mounted # evs) = Inr (foldl (deliver s True p) placeholder_mounted evs)"
  using assms by (simp add: run_viewport mounted_state del: deliver.simps)





subsection \<open>Teardown\<close>




subsection \<open>Order of release and invocation\<close>

lemma release_step:
  assumes "Invoke \<notin> set (trace st) \<or> (\<exists>xs ys. trace st = xs @ Unobserve # Invoke # ys \<and> Invoke \<notin> set xs)"
  shows "Invoke \<notin> set (trace (deliver s True p st ev))
       \<or> (\<exists>xs ys. trace (deliver s True p st ev) = xs @ Unobserve # Invoke # ys \<and> Invoke \<notin> set xs)"
proof -
  have grow: "\<exists>xs ys. t @ es = xs @ Unobserve # Invoke # ys \<and> Invoke \<notin> set xs"
    if "\<exists>xs ys. t = xs @ Unobserve # Invoke # ys \<and> Invoke \<notin> set xs" for t es :: "('a, 'b) effect list"
  proof -
    from that obtain xs ys where "t = xs @ Unobserve # Invoke # ys" and "Invoke \<notin> set xs"
      by blast
    then have "t @ es = xs @ Unobserve # Invoke # (ys @ es) \<and> Invoke \<notin> set xs" by simp
    then show ?thesis by blast
  qed
  have quiet: "Invoke \<notin> set (t @ es)
       \<or> (\<exists>xs ys. t @ es = xs @ Unobserve # Invoke # ys \<and> Invoke \<notin> set xs)"
    if "Invoke \<notin> set t \<or> (\<exists>xs ys. t = xs @ Unobserve # Invoke # ys \<and> Invoke \<notin> set xs)"
      and "Invoke \<notin> set es" for t es :: "('a, 'b) effect list"
    using that grow [of t es] by auto
  have fire: "\<exists>xs ys. t @ Unobserve # Invoke # es = xs @ Unobserve # Invoke # ys \<and> Invoke \<notin> set xs"
    if "Invoke \<notin> set t \<or> (\<exists>xs ys. t = xs @ Unobserve # Invoke # ys \<and> Invoke \<notin> set xs)"
    for t es :: "('a, 'b) effect list"
    using that grow [of t "Unobserve # Invoke # es"] by auto
  show ?thesis
  proof (cases ev)
    case Mounted
    with quiet [OF assms, of "[Construct, Observe]"] assms show ?thesis
      by (simp add: onMounted_def emit_def)
  next
    case Unmounted
    with assms show ?thesis by simp
  next
    case (Intersection entries)
    show ?thesis
    proof (cases "observing st")
      case False
      with assms Intersection show ?thesis by simp
    next
      case obs: True
      show ?thesis
      proof (cases entries)
        case Nil
        with quiet [OF assms, of "[Uncaught TypeError]"] Intersection obs show ?thesis
          by (simp add: observer_callback_def emit_def)
      next
        case (Cons b rest)
        show ?thesis
        proof (cases b)
          case False
          with assms Intersection obs Cons show ?thesis by (simp add: observer_callback_def)
        next
          case True
          obtain t where "trace (loadComponent s p (emit [Unobserve] (st\<lparr> observing := False \<rparr>)))
              = trace (emit [Unobserve] (st\<lparr> observing := False \<rparr>)) @ Invoke # t"
            using loadComponent_trace by blast
          then have "trace (deliver s True p st ev) = trace st @ Unobserve # Invoke # t"
            using True Intersection obs Cons by (simp add: observer_callback_def emit_def)
          with fire [OF assms, of t] show ?thesis by simp
        qed
      qed
    qed
  qed
qed

lemma release_fold:
  assumes "Invoke \<notin> set (trace st) \<or> (\<exists>xs ys. trace st = xs @ Unobserve # Invoke # ys \<and> Invoke \<notin> set xs)"
  shows "Invoke \<notin> set (trace (foldl (deliver s True p) st evs))
       \<or> (\<exists>xs ys. trace (foldl (deliver s True p) st evs) = xs @ Unobserve # Invoke # ys
                  \<and> Invoke \<notin> set xs)"
  using assms
proof (induction evs arbitrary: st)
  case Nil
  then show ?case by simp
next
  case (Cons ev evs)
  from Cons.IH [OF release_step [OF Cons.prems, of s p ev]] show ?case by simp
qed

text \<open>
  C8. In a browser with \<open>IntersectionObserver\<close>, whenever the user's loader has been
  invoked, \<open>observer.unobserve\<close> comes directly before the first invocation: the
  callback releases the observation before it calls \<open>loadComponent\<close>.
\<close>

theorem release_precedes_invocation:
  assumes "hasIO e" and "defineInVueComponent s e ro = Inr (ViewportAsync opts)"
    and "run s e ro p rnd evs = Inr st" and "Invoke \<in> set (trace st)"
  shows "\<exists>xs ys. trace st = xs @ Unobserve # Invoke # ys \<and> Invoke \<notin> set xs"
proof -
  have "st = foldl (deliver s True p) (init\<lparr> resolveComponent := True \<rparr>) evs"
    using assms(1,3) by (simp add: run_viewport [OF assms(2)])
  moreover have "Invoke \<notin> set (trace (init\<lparr> resolveComponent := True \<rparr> :: ('a, 'b) state))"
    by (simp add: init_def)
  ultimately show ?thesis
    using release_fold [of "init\<lparr> resolveComponent := True \<rparr>" s p evs] assms(4) by blast
qed

theorem release_precedes_invocation_witness:
  "run MainTs (browser True ''3.4.21'') no_options fulfils half [Mounted, Intersection [True]]
     = Inr \<lparr> calls = 1, resolveComponent = True, mounted = True, observing = False,
             status = Fulfilled 7,
             trace = [Construct, Observe] @ Unobserve # Invoke # [Resolve 7] \<rparr>"
  using release_precedes_invocation [of "browser True ''3.4.21''" MainTs no_options
      "destructure no_options" fulfils half "[Mounted, Intersection [True]]"
      "\<lparr> calls = 1, resolveComponent = True, mounted = True, observing = False,
         status = Fulfilled 7, trace = [Construct, Observe, Unobserve, Invoke, Resolve 7] \<rparr>"]
  by (simp add: eval_defs)

subsection \<open>No IntersectionObserver\<close>

lemma vue_load_user_trace:
  "\<exists>t. trace (vue_load opts (user_loader p) rnd r st) = trace st @ Invoke # t
       \<and> Construct \<notin> set t \<and> Observe \<notin> set t
       \<and> calls st < calls (vue_load opts (user_loader p) rnd r st)"
proof (induction "nat (maxRetries opts - int r)" arbitrary: r st)
  case 0
  have "int r + 1 > maxRetries opts" using "0.hyps" by simp
  then show ?case
    by (subst (1 2) vue_load_user_step) (simp add: emit_def split: settlement.splits)
next
  case (Suc n)
  have le: "\<not> int r + 1 > maxRetries opts" using Suc.hyps(2) by simp
  have "n = nat (maxRetries opts - int (r + 1))" using Suc.hyps(2) by simp
  from Suc.hyps(1) [OF this] have
    t: "\<And>st. \<exists>t. trace (vue_load opts (user_loader p) rnd (r + 1) st) = trace st @ Invoke # t
        \<and> Construct \<notin> set t \<and> Observe \<notin> set t
        \<and> calls st < calls (vue_load opts (user_loader p) rnd (r + 1) st)"
    by blast
  show ?case
  proof (cases "p (calls st)")
    case Pending
    then show ?thesis by (subst (1 2) vue_load_user_step) (simp add: emit_def)
  next
    case (Fulfilled c)
    then show ?thesis by (subst (1 2) vue_load_user_step) (simp add: emit_def)
  next
    case (Rejected err)
    let ?st = "emit [Invoke, Console (Warn (int r + 1) err),
                         Timer (jitteredDelay opts (rnd r) (int r + 1))]
                     (st\<lparr> calls := calls st + 1 \<rparr>)"
    have step: "vue_load opts (user_loader p) rnd r st = vue_load opts (user_loader p) rnd (r + 1) ?st"
      using Rejected le by (subst vue_load_user_step) simp
    from t [of ?st] obtain t' where
      "trace (vue_load opts (user_loader p) rnd (r + 1) ?st) = trace ?st @ Invoke # t'"
      "Construct \<notin> set t'" "Observe \<notin> set t'"
      "calls ?st < calls (vue_load opts (user_loader p) rnd (r + 1) ?st)"
      by blast
    then show ?thesis
      unfolding step by (auto simp: emit_def)
  qed
qed

lemma run_standard:
  "defineInVueComponent s e ro = Inr (StandardAsync opts) \<Longrightarrow>
   run s e ro p rnd evs = Inr (vue_load opts (user_loader p) rnd 0 init)"
  by (simp add: run_def instantiate_def react_standard)

text \<open>
  C7. Without \<open>IntersectionObserver\<close> no observer is constructed and nothing is observed,
  and the user's loader is invoked with no intersection event at all: in \<open>main.ts\<close> by
  the mounted hook of the placeholder, as its first effect; in \<open>part_000\<close> by Vue's
  \<open>load\<close> when the instance is created, the component being a standard async component.
  Later events change nothing.
\<close>

theorem no_observer_loads_at_once:
  assumes "\<not> hasIO e"
  shows "(\<exists>st t. run MainTs e ro p rnd [Mounted] = Inr st
              \<and> run MainTs e ro p rnd (Mounted # evs) = Inr st
              \<and> calls st = 1 \<and> trace st = Invoke # t
              \<and> Construct \<notin> set t \<and> Observe \<notin> set t)
       \<and> (isCompatibleVueVersion e \<longrightarrow>
           (\<exists>st t. run Part000 e ro p rnd [] = Inr st
              \<and> run Part000 e ro p rnd evs = Inr st
              \<and> 1 \<le> calls st \<and> trace st = Invoke # t
              \<and> Construct \<notin> set t \<and> Observe \<notin> set t))"
proof
  let ?st = "loadComponent MainTs p (init\<lparr> resolveComponent := True, mounted := True \<rparr>)"
  have h: "defineInVueComponent MainTs e ro = Inr (ViewportAsync (destructure ro))"
    by (simp add: defineInVueComponent_def)
  have first: "deliver MainTs False p (init\<lparr> resolveComponent := True \<rparr>) Mounted = ?st"
    by (simp add: onMounted_def init_def)
  have rest: "foldl (deliver MainTs False p) ?st evs = ?st"
    by (intro idle) (simp_all add: loadComponent_fields init_def)
  obtain t where t: "trace ?st = Invoke # t"
    "list_all (\<lambda>x. \<not> retry_effect x \<and> x \<noteq> Invoke \<and> x \<noteq> Unobserve \<and> x \<noteq> Construct \<and> x \<noteq> Observe) t"
    using loadComponent_trace [of MainTs p "init\<lparr> resolveComponent := True, mounted := True \<rparr>"]
    by (auto simp: init_def)
  have "run MainTs e ro p rnd [Mounted] = Inr ?st" "run MainTs e ro p rnd (Mounted # evs) = Inr ?st"
    using assms first rest by (simp_all add: run_viewport [OF h] del: deliver.simps)
  moreover have "calls ?st = 1" by (simp add: loadComponent_fields init_def)
  moreover have "Construct \<notin> set t \<and> Observe \<notin> set t" using t(2) by (auto simp: list_all_iff)
  ultimately show "\<exists>st t. run MainTs e ro p rnd [Mounted] = Inr st
              \<and> run MainTs e ro p rnd (Mounted # evs) = Inr st
              \<and> calls st = 1 \<and> trace st = Invoke # t
              \<and> Construct \<notin> set t \<and> Observe \<notin> set t"
    using t(1) by blast
next
  show "isCompatibleVueVersion e \<longrightarrow>
           (\<exists>st t. run Part000 e ro p rnd [] = Inr st
              \<and> run Part000 e ro p rnd evs = Inr st
              \<and> 1 \<le> calls st \<and> trace st = Invoke # t
              \<and> Construct \<notin> set t \<and> Observe \<notin> set t)"
  proof
    assume "isCompatibleVueVersion e"
    with assms have h: "defineInVueComponent Part000 e ro = Inr (StandardAsync (destructure ro))"
      by (simp add: defineInVueComponent_def)
    let ?st = "vue_load (destructure ro) (user_loader p) rnd 0 (init :: ('a, 'b) state)"
    obtain t where "trace ?st = Invoke # t" "Construct \<notin> set t" "Observe \<notin> set t" "0 < calls ?st"
      using vue_load_user_trace [of "destructure ro" p rnd 0 "init :: ('a, 'b) state"]
      by (auto simp: init_def)
    then show "\<exists>st t. run Part000 e ro p rnd [] = Inr st
              \<and> run Part000 e ro p rnd evs = Inr st
              \<and> 1 \<le> calls st \<and> trace st = Invoke # t
              \<and> Construct \<notin> set t \<and> Observe \<notin> set t"
      by (auto simp: run_standard [OF h])
  qed
qed

theorem no_observer_loads_at_once_witness:
  "run MainTs (browser False ''3.4.21'') no_options fulfils half [Mounted]
     = Inr \<lparr> calls = 1, resolveComponent = True, mounted = True, observing = False,
             status = Fulfilled 7, trace = [Invoke, Resolve 7] \<rparr>
 \<and> run Part000 (browser False ''3.4.21'') no_options fulfils half []
     = Inr \<lparr> calls = 1, resolveComponent = False, mounted = False, observing = False,
             status = Fulfilled 7, trace = [Invoke] \<rparr>"
  using no_observer_loads_at_once [of "browser False ''3.4.21''" no_options fulfils half "[]"]
  by (simp add: eval_defs)

subsection \<open>The promise of the wrapper\<close>

lemma settle_loadComponent:
  assumes "\<forall>err. status st \<noteq> Rejected err"
    and "\<forall>c. status st = Fulfilled c \<longrightarrow> (\<exists>i<calls st. p i = Fulfilled c)"
    and "list_all (\<lambda>x. \<not> retry_effect x) (trace st)"
  shows "(\<forall>err. status (loadComponent s p st) \<noteq> Rejected err)
       \<and> (\<forall>c. status (loadComponent s p st) = Fulfilled c
              \<longrightarrow> (\<exists>i<calls (loadComponent s p st). p i = Fulfilled c))
       \<and> list_all (\<lambda>x. \<not> retry_effect x) (trace (loadComponent s p st))"
proof -
  have old: "\<forall>c. status st = Fulfilled c \<longrightarrow> (\<exists>i<Suc (calls st). p i = Fulfilled c)"
    using assms(2) less_SucI by blast
  have new: "\<exists>i<Suc (calls st). p i = Fulfilled c" if "p (calls st) = Fulfilled c" for c
    using that by blast
  show ?thesis
  proof (cases "p (calls st)")
    case Pending
    with assms(1,3) old show ?thesis
      by (simp add: loadComponent_def user_loader_def emit_def)
  next
    case (Rejected err)
    with assms(1,3) old show ?thesis
      by (cases s) (simp_all add: loadComponent_def user_loader_def emit_def throw_def)
  next
    case (Fulfilled c)
    show ?thesis
    proof (cases "resolveComponent st")
      case False
      with Fulfilled assms(1,3) old show ?thesis
        by (cases s) (simp_all add: loadComponent_def user_loader_def emit_def throw_def)
    next
      case True
      show ?thesis
      proof (cases "status st")
        case Pending
        with True Fulfilled assms(3) new [OF Fulfilled] show ?thesis
          by (simp add: loadComponent_def user_loader_def emit_def resolve_def)
      next
        case (Rejected err)
        with assms(1) show ?thesis by simp
      next
        case was: (Fulfilled c')
        with True Fulfilled assms(3) old show ?thesis
          by (simp add: loadComponent_def user_loader_def emit_def resolve_def)
      qed
    qed
  qed
qed

lemma settle_step:
  assumes "\<forall>err. status st \<noteq> Rejected err"
    and "\<forall>c. status st = Fulfilled c \<longrightarrow> (\<exists>i<calls st. p i = Fulfilled c)"
    and "list_all (\<lambda>x. \<not> retry_effect x) (trace st)"
  shows "(\<forall>err. status (deliver s io p st ev) \<noteq> Rejected err)
       \<and> (\<forall>c. status (deliver s io p st ev) = Fulfilled c
              \<longrightarrow> (\<exists>i<calls (deliver s io p st ev). p i = Fulfilled c))
       \<and> list_all (\<lambda>x. \<not> retry_effect x) (trace (deliver s io p st ev))"
proof (cases ev)
  case Unmounted
  with assms show ?thesis by simp
next
  case Mounted
  show ?thesis
  proof (cases "mounted st \<or> io \<or> s = Part000")
    case True
    with Mounted assms show ?thesis
      by (auto simp: onMounted_def emit_def split: src.splits)
  next
    case False
    then have "deliver s io p st ev = loadComponent s p (st\<lparr> mounted := True \<rparr>)"
      using Mounted by (cases s) (simp_all add: onMounted_def)
    with settle_loadComponent [of "st\<lparr> mounted := True \<rparr>" p s] assms show ?thesis by simp
  qed
next
  case (Intersection entries)
  show ?thesis
  proof (cases "observing st \<and> fires ev")
    case False
    with Intersection assms show ?thesis
      by (cases entries) (auto simp: observer_callback_def emit_def)
  next
    case True
    then obtain rest where "entries = True # rest"
      using Intersection by (cases entries) auto
    with True Intersection have "deliver s io p st ev
        = loadComponent s p (emit [Unobserve] (st\<lparr> observing := False \<rparr>))"
      by (simp add: observer_callback_def)
    with settle_loadComponent [of "emit [Unobserve] (st\<lparr> observing := False \<rparr>)" p s] assms
    show ?thesis by (simp add: emit_def)
  qed
qed

lemma settle_fold:
  assumes "\<forall>err. status st \<noteq> Rejected err"
    and "\<forall>c. status st = Fulfilled c \<longrightarrow> (\<exists>i<calls st. p i = Fulfilled c)"
    and "list_all (\<lambda>x. \<not> retry_effect x) (trace st)"
  shows "(\<forall>err. status (foldl (deliver s io p) st evs) \<noteq> Rejected err)
       \<and> (\<forall>c. status (foldl (deliver s io p) st evs) = Fulfilled c
              \<longrightarrow> (\<exists>i<calls (foldl (deliver s io p) st evs). p i = Fulfilled c))
       \<and> list_all (\<lambda>x. \<not> retry_effect x) (trace (foldl (deliver s io p) st evs))"
  using assms
proof (induction evs arbitrary: st)
  case Nil
  then show ?case by simp
next
  case (Cons ev evs)
  from settle_step [OF Cons.prems, of s io ev]
  have "(\<forall>err. status (deliver s io p st ev) \<noteq> Rejected err)"
    "(\<forall>c. status (deliver s io p st ev) = Fulfilled c
              \<longrightarrow> (\<exists>i<calls (deliver s io p st ev). p i = Fulfilled c))"
    "list_all (\<lambda>x. \<not> retry_effect x) (trace (deliver s io p st ev))"
    by blast+
  from Cons.IH [OF this] show ?case by simp
qed

lemma calls_at_most_once:
  assumes "calls st = 0" and "\<not> observing st" and "\<not> mounted st"
  shows "calls (foldl (deliver s io p) st evs) \<le> 1"
  using assms
proof (induction evs arbitrary: st)
  case Nil
  then show ?case by simp
next
  case (Cons ev evs)
  show ?case
  proof (cases ev)
    case Unmounted
    with Cons.IH [of st] Cons.prems show ?thesis by simp
  next
    case (Intersection entries)
    with Cons.IH [of st] Cons.prems show ?thesis by simp
  next
    case Mounted
    let ?st = "onMounted s io p (st\<lparr> mounted := True \<rparr>)"
    have "mounted ?st" "calls ?st \<le> 1" "observing ?st \<longrightarrow> calls ?st = 0"
      using Cons.prems
      by (auto simp: onMounted_def loadComponent_fields emit_def split: src.splits)
    then have "calls (foldl (deliver s io p) ?st evs) \<le> 1"
      by (auto simp: calls_fold)
    with Mounted Cons.prems show ?thesis by simp
  qed
qed

lemma viewport_settlement:
  assumes "defineInVueComponent s e ro = Inr (ViewportAsync opts)"
  shows "\<exists>st. run s e ro p rnd evs = Inr st
         \<and> calls st \<le> 1
         \<and> (\<forall>err. status st \<noteq> Rejected err)
         \<and> (\<forall>c. status st = Fulfilled c \<longrightarrow> p 0 = Fulfilled c)
         \<and> list_all (\<lambda>x. \<not> retry_effect x) (trace st)
         \<and> (\<forall>err. p 0 = Rejected err \<longrightarrow> status st = Pending)"
proof -
  let ?st = "foldl (deliver s (hasIO e) p) (init\<lparr> resolveComponent := True \<rparr>) evs"
  have inv: "\<forall>err. status ?st \<noteq> Rejected err"
    "\<forall>c. status ?st = Fulfilled c \<longrightarrow> (\<exists>i<calls ?st. p i = Fulfilled c)"
    "list_all (\<lambda>x. \<not> retry_effect x) (trace ?st)"
    using settle_fold [of "init\<lparr> resolveComponent := True \<rparr>" p s "hasIO e" evs]
    by (simp_all add: init_def)
  have once: "calls ?st \<le> 1"
    by (rule calls_at_most_once) (simp_all add: init_def)
  have first: "p 0 = Fulfilled c" if "status ?st = Fulfilled c" for c
  proof -
    from that inv(2) obtain i where "i < calls ?st" "p i = Fulfilled c" by blast
    with once show ?thesis by (cases i) simp_all
  qed
  have pend: "status ?st = Pending" if "p 0 = Rejected err" for err
  proof (cases "status ?st")
    case Pending
    then show ?thesis .
  next
    case (Rejected err')
    with inv(1) show ?thesis by simp
  next
    case (Fulfilled c)
    with first [of c] that show ?thesis by simp
  qed
  have "run s e ro p rnd evs = Inr ?st" by (simp add: run_viewport [OF assms])
  with inv(1,3) once first pend show ?thesis by blast
qed

lemma standard_only_without_observer:
  "defineInVueComponent s e ro = Inr (StandardAsync opts) \<Longrightarrow> s = Part000 \<and> \<not> hasIO e"
  by (auto simp: defineInVueComponent_def split: src.splits if_splits)

lemma vue_load_user_first_failure:
  assumes "p (calls st) = Rejected err"
  shows "Console (Warn (int r + 1) err) \<in> set (trace (vue_load opts (user_loader p) rnd r st))"
proof (cases "int r + 1 > maxRetries opts")
  case True
  with assms show ?thesis by (subst vue_load_user_step) (simp add: emit_def)
next
  case False
  let ?st = "emit [Invoke, Console (Warn (int r + 1) err),
                         Timer (jitteredDelay opts (rnd r) (int r + 1))]
                     (st\<lparr> calls := calls st + 1 \<rparr>)"
  obtain t where "trace (vue_load opts (user_loader p) rnd (r + 1) ?st) = trace ?st @ Invoke # t"
    using vue_load_user_trace by blast
  with False assms show ?thesis by (subst vue_load_user_step) (simp add: emit_def)
qed

text \<open>
  C10. For a \<open>ViewportAsync\<close> component, whatever the events: the user's loader is
  invoked at most once; the promise of the \<open>loader\<close> option is never rejected; it is
  fulfilled only with the value that this invocation fulfilled with; no effect of
  \<open>onError\<close> (console line, \<open>fail()\<close>, timer) ever happens; and when the user's
  loader rejects, the promise stays pending.
  A \<open>StandardAsync\<close> component exists only in \<open>part_000\<close> without
  \<open>IntersectionObserver\<close>; there a rejection of the user's loader does reach \<open>onError\<close>.
\<close>

theorem wrapper_promise_never_rejects:
  "(defineInVueComponent s e ro = Inr (ViewportAsync opts) \<longrightarrow>
      (\<exists>st. run s e ro p rnd evs = Inr st
         \<and> calls st \<le> 1
         \<and> (\<forall>err. status st \<noteq> Rejected err)
         \<and> (\<forall>c. status st = Fulfilled c \<longrightarrow> p 0 = Fulfilled c)
         \<and> list_all (\<lambda>x. \<not> retry_effect x) (trace st)
         \<and> (\<forall>err. p 0 = Rejected err \<longrightarrow> status st = Pending)))
 \<and> (defineInVueComponent s e ro = Inr (StandardAsync opts) \<longrightarrow>
      s = Part000 \<and> \<not> hasIO e
      \<and> (\<forall>err. p 0 = Rejected err \<longrightarrow>
            (\<exists>st. run s e ro p rnd evs = Inr st \<and> Console (Warn 1 err) \<in> set (trace st))))"
proof (intro conjI impI)
  assume "defineInVueComponent s e ro = Inr (ViewportAsync opts)"
  then show "\<exists>st. run s e ro p rnd evs = Inr st
         \<and> calls st \<le> 1
         \<and> (\<forall>err. status st \<noteq> Rejected err)
         \<and> (\<forall>c. status st = Fulfilled c \<longrightarrow> p 0 = Fulfilled c)
         \<and> list_all (\<lambda>x. \<not> retry_effect x) (trace st)
         \<and> (\<forall>err. p 0 = Rejected err \<longrightarrow> status st = Pending)"
    by (rule viewport_settlement)
next
  assume h: "defineInVueComponent s e ro = Inr (StandardAsync opts)"
  then show "s = Part000" and "\<not> hasIO e"
    using standard_only_without_observer by blast+
  show "\<forall>err. p 0 = Rejected err \<longrightarrow>
            (\<exists>st. run s e ro p rnd evs = Inr st \<and> Console (Warn 1 err) \<in> set (trace st))"
    using vue_load_user_first_failure [of p "init :: ('a, 'b) state" _ 0 opts rnd]
    by (simp add: run_standard [OF h]) (simp add: init_def)
qed

theorem wrapper_promise_never_rejects_witness:
  "run MainTs (browser True ''3.4.21'') no_options always_rejects half [Mounted, Intersection [True]]
     = Inr \<lparr> calls = 1, resolveComponent = True, mounted = True, observing = False,
             status = Pending,
             trace = [Construct, Observe, Unobserve, Invoke, Uncaught (User ''boom'')] \<rparr>
 \<and> run Part000 (browser True ''3.4.21'') no_options always_rejects half [Mounted, Intersection [True]]
     = Inr \<lparr> calls = 1, resolveComponent = True, mounted = True, observing = False,
             status = Pending,
             trace = [Construct, Observe, Unobserve, Invoke, Logged (User ''boom'')] \<rparr>
 \<and> map_sum id trace (run Part000 (browser False ''3.4.21'') negative_retries always_rejects half [])
     = Inr [Invoke, Console (Warn 1 ''boom''), Console MaxRetriesExceeded, FailCall]"
  using wrapper_promise_never_rejects [of MainTs "browser True ''3.4.21''" no_options
      "destructure no_options" always_rejects half "[Mounted, Intersection [True]]"]
    wrapper_promise_never_rejects [of Part000 "browser False ''3.4.21''" negative_retries
      "destructure negative_retries" always_rejects half "[]"]
  by (simp add: eval_defs)

subsection \<open>The retry protocol where the user's loader is the \<open>loader\<close> option\<close>

lemma onError_fail_iff: "snd (onError opts u err k) = Fail \<longleftrightarrow> maxRetries opts < k"
  by (simp add: onError_def)

lemma onError_retry_iff: "(\<exists>d. snd (onError opts u err k) = Retry d) \<longleftrightarrow> k \<le> maxRetries opts"
  by (simp add: onError_def)

lemma standard_always_failing:
  assumes "\<forall>i. \<exists>err. p i = Rejected err" and "maxRetries opts = int n" and "r \<le> n"
  shows "calls (vue_load opts (user_loader p) rnd r st) = calls st + (n + 1 - r)
       \<and> (\<exists>err. status (vue_load opts (user_loader p) rnd r st) = Rejected err)
       \<and> length (filter (\<lambda>x. \<exists>d. x = Timer d) (trace (vue_load opts (user_loader p) rnd r st)))
           = length (filter (\<lambda>x. \<exists>d. x = Timer d) (trace st)) + (n - r)
       \<and> last (trace (vue_load opts (user_loader p) rnd r st)) = FailCall"
  using assms(3)
proof (induction "n - r" arbitrary: r st)
  case 0
  then have r: "r = n" by simp
  obtain err where "p (calls st) = Rejected err" using assms(1) by blast
  then show ?case
    using assms(2) r by (subst (1 2 3 4) vue_load_user_step) (simp add: emit_def)
next
  case (Suc k)
  obtain err where err: "p (calls st) = Rejected err" using assms(1) by blast
  let ?st = "emit [Invoke, Console (Warn (int r + 1) err),
                         Timer (jitteredDelay opts (rnd r) (int r + 1))]
                     (st\<lparr> calls := calls st + 1 \<rparr>)"
  have lt: "r < n" using Suc.hyps(2) by simp
  then have step: "vue_load opts (user_loader p) rnd r st
      = vue_load opts (user_loader p) rnd (r + 1) ?st"
    using err assms(2) by (subst vue_load_user_step) simp
  have "k = n - (r + 1)" "r + 1 \<le> n" using Suc.hyps(2) by simp_all
  from Suc.hyps(1) [OF this, of ?st]
  have "calls (vue_load opts (user_loader p) rnd (r + 1) ?st) = calls ?st + (n + 1 - (r + 1))"
    and "\<exists>err. status (vue_load opts (user_loader p) rnd (r + 1) ?st) = Rejected err"
    and "length (filter (\<lambda>x. \<exists>d. x = Timer d) (trace (vue_load opts (user_loader p) rnd (r + 1) ?st)))
           = length (filter (\<lambda>x. \<exists>d. x = Timer d) (trace ?st)) + (n - (r + 1))"
    and "last (trace (vue_load opts (user_loader p) rnd (r + 1) ?st)) = FailCall"
    by blast+
  moreover have "calls ?st + (n + 1 - (r + 1)) = calls st + (n + 1 - r)"
    using lt by (simp add: emit_def)
  moreover have "length (filter (\<lambda>x. \<exists>d. x = Timer d) (trace ?st)) + (n - (r + 1))
      = length (filter (\<lambda>x. \<exists>d. x = Timer d) (trace st)) + (n - r)"
    using lt by (simp add: emit_def)
  ultimately show ?case
    unfolding step by simp
qed

lemma standard_succeeds_on_attempt:
  assumes "\<forall>i<m - 1. \<exists>err. p i = Rejected err" and "p (m - 1) = Fulfilled c"
    and "1 \<le> m" and "int m \<le> maxRetries opts + 1" and "calls st = r" and "r < m"
  shows "calls (vue_load opts (user_loader p) rnd r st) = m
       \<and> status (vue_load opts (user_loader p) rnd r st) = Fulfilled c
       \<and> last (trace (vue_load opts (user_loader p) rnd r st)) = Invoke"
  using assms(5,6)
proof (induction "m - 1 - r" arbitrary: r st)
  case 0
  then have r: "r = m - 1" by simp
  then have "p (calls st) = Fulfilled c" using assms(2) "0.prems" by simp
  then show ?case
    using r assms(3) "0.prems" by (subst (1 2 3) vue_load_user_step) (simp add: emit_def)
next
  case (Suc k)
  have lt: "r < m - 1" using Suc.hyps(2) by simp
  then obtain err where err: "p (calls st) = Rejected err"
    using assms(1) Suc.prems by blast
  let ?st = "emit [Invoke, Console (Warn (int r + 1) err),
                         Timer (jitteredDelay opts (rnd r) (int r + 1))]
                     (st\<lparr> calls := calls st + 1 \<rparr>)"
  have "\<not> int r + 1 > maxRetries opts" using lt assms(4) by simp
  then have step: "vue_load opts (user_loader p) rnd r st
      = vue_load opts (user_loader p) rnd (r + 1) ?st"
    using err by (subst vue_load_user_step) simp
  have "k = m - 1 - (r + 1)" "calls ?st = r + 1" "r + 1 < m"
    using Suc.hyps(2) Suc.prems by (simp_all add: emit_def)
  from Suc.hyps(1) [OF this] show ?case
    unfolding step .
qed

subsection \<open>Construction\<close>

text \<open>
  C9, as stated, fails: a negative \<open>maxRetries\<close> is accepted by both files, \<open>main.ts\<close>
  accepts a Vue version below 3.2 too, and with the negative count the user's loader is
  invoked.
\<close>

theorem options_not_validated_counterexample:
  "defineInVueComponent MainTs (browser True ''2.7.16'') negative_retries
     = Inr (ViewportAsync \<lparr> maxRetries = - 1, timeout = 30000, retryDelay = 1000 \<rparr>)
 \<and> defineInVueComponent Part000 (browser False ''3.4.21'') negative_retries
     = Inr (StandardAsync \<lparr> maxRetries = - 1, timeout = 30000, retryDelay = 1000 \<rparr>)
 \<and> map_sum id calls (run Part000 (browser False ''3.4.21'') negative_retries always_rejects half [])
     = Inr 1"
  by (simp add: eval_defs)

text \<open>
  C9, amended. \<open>part_000\<close> throws at construction, before any invocation of the user's
  loader, exactly when \<open>isCompatibleVueVersion()\<close> is false (major version not 3, or
  minor version below 2); with a compatible version it accepts every options object.
  \<open>main.ts\<close> makes no check at all and accepts every options object in every
  environment. Options are never validated.
\<close>

theorem incompatible_version_fails_fast:
  "(\<not> isCompatibleVueVersion e \<longrightarrow> run Part000 e ro p rnd evs = Inl IncompatibleVueVersion)
 \<and> (isCompatibleVueVersion e \<longrightarrow> (\<exists>h. defineInVueComponent Part000 e ro = Inr h))
 \<and> defineInVueComponent MainTs e ro = Inr (ViewportAsync (destructure ro))"
  by (simp add: run_def defineInVueComponent_def)

theorem incompatible_version_fails_fast_witness:
  "\<not> isCompatibleVueVersion (browser True ''2.7.16'')
 \<and> run Part000 (browser True ''2.7.16'') no_options fulfils half [Mounted, Intersection [True]]
     = Inl IncompatibleVueVersion
 \<and> isCompatibleVueVersion (browser True ''3.4.21'')
 \<and> defineInVueComponent Part000 (browser True ''3.4.21'') negative_retries
     = Inr (ViewportAsync (destructure negative_retries))"
  using incompatible_version_fails_fast [of "browser True ''2.7.16''" no_options fulfils half
      "[Mounted, Intersection [True]]"]
    incompatible_version_fails_fast [of "browser True ''3.4.21''" negative_retries fulfils half "[]"]
  by (simp add: eval_defs)

subsection \<open>Failures of the user's loader behind the observer\<close>

lemma fired_once:
  assumes "hasIO e" and "defineInVueComponent s e ro = Inr (ViewportAsync opts)"
  shows "run s e ro p rnd (Mounted # Intersection (True # rest) # evs)
       = Inr (loadComponent s p (emit [Unobserve] (placeholder_mounted\<lparr> observing := False \<rparr>)))"
proof -
  let ?st = "loadComponent s p (emit [Unobserve] (placeholder_mounted\<lparr> observing := False \<rparr>))"
  have "deliver s True p placeholder_mounted (Intersection (True # rest)) = ?st"
    by (simp add: observer_callback_def placeholder_mounted_fields)
  moreover have "foldl (deliver s True p) ?st evs = ?st"
    by (intro idle) (simp_all add: loadComponent_fields emit_def placeholder_mounted_fields)
  ultimately show ?thesis
    by (simp add: run_mounted [OF assms] del: deliver.simps)
qed

text \<open>
  C1 on the code. \<open>main.ts\<close>, default options (\<open>maxRetries = 3\<close>), a browser with
  \<open>IntersectionObserver\<close>, a loader that rejects every time: the loader is invoked once,
  the rejection leaves \<open>loadComponent\<close> uncaught, the promise of the wrapper stays
  pending, \<open>onError\<close> is not called, no retry is scheduled and \<open>fail()\<close> is not called,
  whatever events follow. The standard component of \<open>part_000\<close>, where the user's loader
  is the \<open>loader\<close> option, makes the four invocations.
\<close>

theorem viewport_failure_is_never_retried:
  "run MainTs (browser True ''3.4.21'') no_options always_rejects half
      (Mounted # Intersection [True] # evs)
     = Inr \<lparr> calls = 1, resolveComponent = True, mounted = True, observing = False,
             status = Pending,
             trace = [Construct, Observe, Unobserve, Invoke, Uncaught (User ''boom'')] \<rparr>
 \<and> map_sum id calls (run Part000 (browser False ''3.4.21'') no_options always_rejects half evs)
     = Inr 4"
proof -
  have "defineInVueComponent MainTs (browser True ''3.4.21'') no_options
      = Inr (ViewportAsync (destructure no_options))"
    by (simp add: defineInVueComponent_def)
  from fired_once [OF _ this, of always_rejects half "[]" evs] show ?thesis
    by (simp add: eval_defs placeholder_mounted_def react_standard)
qed

text \<open>
  C5 on the code. \<open>main.ts\<close>, \<open>maxRetries = 0\<close>, a browser with
  \<open>IntersectionObserver\<close>, a loader that rejects: after the one invocation nothing
  reports a failure, the promise of the wrapper stays pending and \<open>fail()\<close> is not called.
  The standard component of \<open>part_000\<close> calls \<open>onError\<close> with \<open>attempts = 1\<close>, which
  calls \<open>fail()\<close> and sets no timer.
\<close>

theorem viewport_failure_is_not_terminal:
  "run MainTs (browser True ''3.4.21'') no_retries always_rejects half
      (Mounted # Intersection [True] # evs)
     = Inr \<lparr> calls = 1, resolveComponent = True, mounted = True, observing = False,
             status = Pending,
             trace = [Construct, Observe, Unobserve, Invoke, Uncaught (User ''boom'')] \<rparr>
 \<and> run Part000 (browser False ''3.4.21'') no_retries always_rejects half evs
     = Inr \<lparr> calls = 1, resolveComponent = False, mounted = False, observing = False,
             status = Rejected ''boom'',
             trace = [Invoke, Console (Warn 1 ''boom''), Console MaxRetriesExceeded, FailCall] \<rparr>"
proof -
  have "defineInVueComponent MainTs (browser True ''3.4.21'') no_retries
      = Inr (ViewportAsync (destructure no_retries))"
    by (simp add: defineInVueComponent_def)
  from fired_once [OF _ this, of always_rejects half "[]" evs] show ?thesis
    by (simp add: eval_defs placeholder_mounted_def react_standard)
qed

text \<open>
  C6 on the code. \<open>main.ts\<close>, default options, a browser with \<open>IntersectionObserver\<close>,
  a loader that rejects its first invocation and would fulfil the second (\<open>m = 2\<close>): it
  is invoked once, never again, and no value is delivered. The standard component of
  \<open>part_000\<close> invokes it twice and is fulfilled, with no timer after the success.
\<close>

theorem viewport_failure_blocks_later_success:
  "run MainTs (browser True ''3.4.21'') no_options rejects_once half
      (Mounted # Intersection [True] # evs)
     = Inr \<lparr> calls = 1, resolveComponent = True, mounted = True, observing = False,
             status = Pending,
             trace = [Construct, Observe, Unobserve, Invoke, Uncaught (User ''boom'')] \<rparr>
 \<and> run Part000 (browser False ''3.4.21'') no_options rejects_once half evs
     = Inr \<lparr> calls = 2, resolveComponent = False, mounted = False, observing = False,
             status = Fulfilled 7,
             trace = [Invoke, Console (Warn 1 ''boom''), Timer 1250, Invoke] \<rparr>"
proof -
  have "defineInVueComponent MainTs (browser True ''3.4.21'') no_options
      = Inr (ViewportAsync (destructure no_options))"
    by (simp add: defineInVueComponent_def)
  from fired_once [OF _ this, of rejects_once half "[]" evs] show ?thesis
    by (simp add: eval_defs placeholder_mounted_def react_standard)
qed

text \<open>A second call of the stored \<open>resolve\<close> does not change a settled promise.\<close>

lemma resolve_settles_once:
  "status st \<noteq> Pending \<Longrightarrow> status (resolve c st) = status st"
  by (cases "status st") (simp_all add: resolve_def emit_def)

end
